theory Spec2Isabelle
  imports Main "HOL-Library.Sublist"
begin

section \<open>The Android runtime host shim of monodroid.c\<close>

text \<open>
  The file \<^verbatim>\<open>src/tasks/AndroidAppBuilder/Templates/monodroid.c\<close> keeps three process-wide
  variables (\<^verbatim>\<open>g_bundle_path\<close>, \<^verbatim>\<open>g_domain\<close>, \<^verbatim>\<open>g_assembly\<close>) and drives the embedded Mono
  engine through its C interface. The embedding below follows the C text function by function:

  \<^item> a pointer is an \<open>option\<close>: \<open>None\<close> is \<^verbatim>\<open>NULL\<close>, \<open>Some h\<close> a non-null pointer;
  \<^item> the three globals are fields of the record \<open>shim\<close>, passed in and returned;
  \<^item> every call that leaves the file (libc, the Android log, the Mono engine) is appended, in
    program order, to the field \<open>calls\<close>; the calls that only marshal JNI strings and the
    allocation of local buffers are not recorded;
  \<^item> everything the outside world answers (does \<^verbatim>\<open>stat\<close> succeed, which handle does the engine
    return, which exit code does the managed program produce) is read from a record \<open>world\<close>;
  \<^item> a failed \<^verbatim>\<open>assert\<close> ends the process: the outcome \<open>Aborts\<close>;
  \<^item> a C \<^verbatim>\<open>int\<close> is an \<open>int\<close>; where the C text converts or adds, the 32-bit wrap-around is
    written out (\<open>int32\<close>);
  \<^item> a C string is the list of its characters before the terminating zero; a fixed buffer
    keeps what its copy function keeps (\<open>strlcpy\<close>, \<open>strlcat\<close>, \<open>snprintf\<close>, \<open>strncpy_str\<close>).

  Apart from the \<^verbatim>\<open>malloc\<close> of the bundle path, whose failure the C text tests, allocations
  are taken to succeed, and a call into the engine is taken to return. The two sinks that end
  the process from inside the engine (\<^verbatim>\<open>log_callback\<close>, \<^verbatim>\<open>unhandled_exception_handler\<close>) and
  \<^verbatim>\<open>invoke_external_native_api\<close> touch none of the three globals and are not part of the
  embedding.
\<close>

subsection \<open>Data\<close>

type_synonym handle = nat

datatype android_prio = ANDROID_LOG_DEBUG | ANDROID_LOG_ERROR

datatype aot_mode = MONO_AOT_MODE_INTERP_ONLY | MONO_AOT_MODE_FULL | MONO_AOT_MODE_NORMAL

text \<open>A value of the application context: a string, or the \<^verbatim>\<open>%d\<close> rendering of an int.\<close>

datatype appctx_value = Str string | Dec int

text \<open>
  The calls that leave the file. \<open>Android_log_print\<close> keeps the priority, the tag and the
  format string (not the rendered arguments). \<open>Free\<close> is \<^verbatim>\<open>free (g_bundle_path)\<close>.
\<close>

datatype call =
    Android_log_print android_prio string string
  | Setenv string string bool
  | Chdir string
  | Stat string
  | Open_rdonly string
  | Mmap int
  | Close_fd
  | Munmap handle int
  | Free string
  | Monovm_runtimeconfig_initialize string
  | Monovm_initialize "(string \<times> appctx_value) list"
  | Mono_debug_init
  | Mono_install_assembly_preload_hook
  | Mono_install_load_aot_data_hook
  | Mono_install_unhandled_exception_hook
  | Mono_trace_set_log_handler
  | Mono_set_signal_chaining bool
  | Mono_set_crash_chaining bool
  | Register_aot_modules
  | Mono_jit_set_aot_mode aot_mode
  | Mono_jit_init_version string string
  | Mono_assembly_open string
  | Mono_assembly_close handle
  | Mono_domain_set handle bool
  | Mono_domain_finalize handle int
  | Mono_jit_exec handle handle int "string list"
  | Mono_jit_cleanup handle

record shim =
  g_bundle_path :: "string option"
  g_domain :: "handle option"
  g_assembly :: "handle option"
  calls :: "call list"

text \<open>
  The build configuration (the preprocessor symbols of the file) and the answers of the
  outside world.
\<close>

record world =
  ANDROID_RUNTIME_IDENTIFIER :: string
  DIAGNOSTIC_PORTS :: "string option"
  FORCE_INTERPRETER :: bool
  FORCE_AOT :: bool
  STATIC_AOT :: bool
  FULL_AOT :: bool
  malloc_ok :: bool
  stat_ok :: "string \<Rightarrow> bool"
  open_ok :: "string \<Rightarrow> bool"
  mmap_rv :: "string \<Rightarrow> int \<Rightarrow> handle option"
  mono_assembly_name :: "handle \<Rightarrow> string"
  monovm_initialize_rv :: int
  mono_jit_init_version_rv :: "handle option"
  mono_assembly_open_rv :: "string \<Rightarrow> handle option"
  mono_jit_exec_rv :: "handle \<Rightarrow> handle \<Rightarrow> int \<Rightarrow> string list \<Rightarrow> int"

text \<open>A call of the file either returns (a value and the state) or aborts the process.\<close>

datatype 'a outcome = Returns 'a shim | Aborts shim

definition returned :: "'a outcome \<Rightarrow> 'a option" where
  "returned r = (case r of Returns v s \<Rightarrow> Some v | Aborts s \<Rightarrow> None)"

definition final :: "'a outcome \<Rightarrow> shim" where
  "final r = (case r of Returns v s \<Rightarrow> s | Aborts s \<Rightarrow> s)"

text \<open>The static initialisers: all three globals are \<^verbatim>\<open>NULL\<close>, nothing has been called.\<close>

definition shim_init :: shim where
  "shim_init = \<lparr>g_bundle_path = None, g_domain = None, g_assembly = None, calls = []\<rparr>"

subsection \<open>C library and logging\<close>

definition int32 :: "int \<Rightarrow> int" where
  "int32 x = (x + 2147483648) mod 4294967296 - 2147483648"

definition emit :: "call \<Rightarrow> shim \<Rightarrow> shim" where
  "emit c s = s\<lparr>calls := calls s @ [c]\<rparr>"

definition LOG_INFO :: "string \<Rightarrow> shim \<Rightarrow> shim" where
  "LOG_INFO fmt = emit (Android_log_print ANDROID_LOG_DEBUG ''DOTNET'' fmt)"

definition LOG_ERROR :: "string \<Rightarrow> shim \<Rightarrow> shim" where
  "LOG_ERROR fmt = emit (Android_log_print ANDROID_LOG_ERROR ''DOTNET'' fmt)"

text \<open>
  \<^verbatim>\<open>strlcpy (dst, src, size)\<close> and \<^verbatim>\<open>strlcat (dst, src, size)\<close> keep at most \<open>size - 1\<close>
  characters in \<open>dst\<close>; \<^verbatim>\<open>snprintf (buf, n, ...)\<close> stores at most \<open>n - 1\<close> characters of the
  formatted text and returns the length of the whole formatted text.
\<close>

definition strlcpy :: "string \<Rightarrow> nat \<Rightarrow> string" where
  "strlcpy src siz = take (siz - 1) src"

definition strlcat :: "string \<Rightarrow> string \<Rightarrow> nat \<Rightarrow> string" where
  "strlcat dst src siz = dst @ take (siz - 1 - length dst) src"

definition snprintf :: "nat \<Rightarrow> string \<Rightarrow> string \<times> int" where
  "snprintf n formatted = (take (n - 1) formatted, int (length formatted))"

subsection \<open>Assembly resolution: \<^verbatim>\<open>mono_droid_load_assembly\<close>\<close>

text \<open>
  Lines 82-83: \<^verbatim>\<open>int len = strlen (name); int has_extension = len > 3 && name [len - 4] == '.'
  && (!strcmp ("exe", name + (len - 3)) || !strcmp ("dll", name + (len - 3)));\<close>
\<close>

definition has_extension :: "string \<Rightarrow> bool" where
  "has_extension name =
     (let len = int32 (int (length name)) in
      len > 3 \<and> name ! nat (len - 4) = CHR ''.'' \<and>
      (''exe'' = drop (nat (len - 3)) name \<or> ''dll'' = drop (nat (len - 3)) name))"

text \<open>Lines 86-89: the buffer \<^verbatim>\<open>filename [1024]\<close> after \<^verbatim>\<open>strlcpy\<close> and the optional \<^verbatim>\<open>strlcat\<close>.\<close>

definition load_assembly_filename :: "string \<Rightarrow> string" where
  "load_assembly_filename name =
     (let filename = strlcpy name 1024 in
      if \<not> has_extension name then strlcat filename ''.dll'' 1024 else filename)"

text \<open>Lines 91-94: the buffer \<^verbatim>\<open>path [1024]\<close> and \<^verbatim>\<open>res\<close> after \<^verbatim>\<open>snprintf (path, sizeof (path) - 1, ...)\<close>.\<close>

definition load_assembly_path :: "string \<Rightarrow> string \<Rightarrow> string option \<Rightarrow> string \<times> int" where
  "load_assembly_path bundle_path name culture =
     (let filename = load_assembly_filename name in
      if culture \<noteq> None \<and> the culture \<noteq> ''''
      then snprintf 1023 (bundle_path @ ''/'' @ the culture @ ''/'' @ filename)
      else snprintf 1023 (bundle_path @ ''/'' @ filename))"

definition mono_droid_load_assembly ::
  "world \<Rightarrow> string \<Rightarrow> string option \<Rightarrow> shim \<Rightarrow> handle option outcome" where
  "mono_droid_load_assembly w name culture s =
     (case g_bundle_path s of
        None \<Rightarrow> Aborts s
      | Some bundle_path \<Rightarrow>
          let s1 = LOG_INFO ''assembly_preload_hook: %s %s %s\<newline>'' s;
              (path, res) = load_assembly_path bundle_path name culture
          in if \<not> res > 0 then Aborts s1
             else
               let s2 = emit (Stat path) s1 in
               if stat_ok w path then
                 (case mono_assembly_open_rv w path of
                    None \<Rightarrow> Aborts (emit (Mono_assembly_open path) s2)
                  | Some assembly \<Rightarrow> Returns (Some assembly) (emit (Mono_assembly_open path) s2))
               else Returns None s2)"

subsection \<open>The AOT data hook: \<^verbatim>\<open>load_aot_data\<close>\<close>

text \<open>
  The result is the pair of the returned pointer and of \<^verbatim>\<open>*out_handle\<close>. The assembly's name
  is what the engine answers for \<^verbatim>\<open>mono_assembly_name_get_name (mono_assembly_get_name
  (assembly))\<close>.
\<close>

definition load_aot_data ::
  "world \<Rightarrow> handle \<Rightarrow> int \<Rightarrow> shim \<Rightarrow> (handle option \<times> handle option) outcome" where
  "load_aot_data w assembly siz s =
     (case g_bundle_path s of
        None \<Rightarrow> Aborts s
      | Some bundle_path \<Rightarrow>
          let out_handle = None;
              aname = mono_assembly_name w assembly;
              s1 = LOG_INFO (''Looking for aot data for assembly '' @ [CHR 0x27] @ ''%s'' @ [CHR 0x27] @ ''.'') s;
              (path, res) = snprintf 1023 (bundle_path @ ''/'' @ aname @ ''.aotdata'')
          in if \<not> res > 0 then Aborts s1
             else
               let s2 = emit (Open_rdonly path) s1 in
               if \<not> open_ok w path then
                 Returns (None, out_handle)
                   (LOG_INFO ''Could not load the aot data for %s from %s: %s\<newline>'' s2)
               else
                 let s3 = emit (Mmap siz) s2 in
                 (case mmap_rv w path siz of
                    None \<Rightarrow>
                      Returns (None, out_handle)
                        (emit Close_fd (LOG_INFO ''Could not map the aot file for %s: %s\<newline>'' s3))
                  | Some ptr \<Rightarrow>
                      Returns (Some ptr, Some ptr)
                        (LOG_INFO ''Loaded aot data for %s.\<newline>'' (emit Close_fd s3))))"

definition free_aot_data :: "handle \<Rightarrow> int \<Rightarrow> shim \<Rightarrow> shim" where
  "free_aot_data handle siz s = emit (Munmap handle siz) s"

subsection \<open>Initialisation: \<^verbatim>\<open>mono_droid_runtime_init\<close>\<close>

text \<open>
  \<^verbatim>\<open>RUNTIMECONFIG_BIN_FILE\<close>, and lines 269-285: the path of the runtime configuration file,
  the assertion on its length, and the call that hands the file to the engine when it exists.
\<close>

definition RUNTIMECONFIG_BIN_FILE :: string where
  "RUNTIMECONFIG_BIN_FILE = ''runtimeconfig.bin''"

definition load_runtimeconfig :: "world \<Rightarrow> string \<Rightarrow> shim \<Rightarrow> unit outcome" where
  "load_runtimeconfig w bundle_path s =
     (let file_name = RUNTIMECONFIG_BIN_FILE;
          str_len = int32 (int (length bundle_path) + int (length file_name) + 1);
          (file_path, num_char) = snprintf (nat (str_len + 1)) (bundle_path @ ''/'' @ file_name);
          s1 = LOG_INFO ''file_path: %s\<newline>'' s
      in if \<not> (num_char > 0 \<and> num_char = str_len) then Aborts s1
         else
           let s2 = emit (Stat file_path) s1 in
           if stat_ok w file_path
           then Returns () (emit (Monovm_runtimeconfig_initialize file_path) s2)
           else Returns () s2)"

text \<open>
  Lines 304-318: the execution mode is chosen by the preprocessor
  (\<^verbatim>\<open>#if FORCE_INTERPRETER ... #elif FORCE_AOT ... #endif\<close>).
\<close>

definition select_aot_mode :: "world \<Rightarrow> shim \<Rightarrow> shim" where
  "select_aot_mode w s =
     (if FORCE_INTERPRETER w then
        emit (Mono_jit_set_aot_mode MONO_AOT_MODE_INTERP_ONLY) (LOG_INFO ''Interp Enabled'' s)
      else if FORCE_AOT w then
        (let s1 = LOG_INFO ''AOT Enabled'' s;
             s2 = (if STATIC_AOT w then emit Register_aot_modules s1 else s1)
         in if FULL_AOT w then emit (Mono_jit_set_aot_mode MONO_AOT_MODE_FULL) s2
            else emit (Mono_jit_set_aot_mode MONO_AOT_MODE_NORMAL) s2)
      else s)"

text \<open>Lines 291-297: the hooks and the chaining flags (\<^verbatim>\<open>wait_for_debugger\<close> is the constant false).\<close>

definition install_hooks :: "shim \<Rightarrow> shim" where
  "install_hooks s =
     (emit (Mono_set_crash_chaining True)
     (emit (Mono_set_signal_chaining True)
     (emit Mono_trace_set_log_handler
     (emit Mono_install_unhandled_exception_hook
     (emit Mono_install_load_aot_data_hook
     (emit Mono_install_assembly_preload_hook
     (emit Mono_debug_init s)))))))"

text \<open>
  \<^verbatim>\<open>mono_droid_runtime_init (executable, local_date_time_offset)\<close>. Its only caller has stored
  \<^verbatim>\<open>g_bundle_path\<close> before; with a null bundle path the \<^verbatim>\<open>strlen\<close> of line 270 faults, which
  is the outcome \<open>Aborts\<close>.
\<close>

definition mono_droid_runtime_init :: "world \<Rightarrow> string \<Rightarrow> int \<Rightarrow> shim \<Rightarrow> int outcome" where
  "mono_droid_runtime_init w executable local_date_time_offset s =
     (let s1 = LOG_INFO ''mono_droid_runtime_init (Mono) called with executable: %s'' s;
          s2 = (case DIAGNOSTIC_PORTS w of
                  None \<Rightarrow> s1
                | Some ports \<Rightarrow> emit (Setenv ''DOTNET_DiagnosticPorts'' ports True) s1)
      in case g_bundle_path s2 of
           None \<Rightarrow> Aborts s2
         | Some bundle_path \<Rightarrow>
             let s3 = emit (Chdir bundle_path) s2;
                 appctx =
                   [(''RUNTIME_IDENTIFIER'', Str (ANDROID_RUNTIME_IDENTIFIER w)),
                    (''APP_CONTEXT_BASE_DIRECTORY'', Str bundle_path),
                    (''System.TimeZoneInfo.LocalDateTimeOffset'', Dec local_date_time_offset)]
             in (case load_runtimeconfig w bundle_path s3 of
                  Aborts s4 \<Rightarrow> Aborts s4
                | Returns u s4 \<Rightarrow>
                    let s5 = LOG_INFO ''Calling monovm_initialize'' s4;
                        rv = monovm_initialize_rv w;
                        s6 = emit (Monovm_initialize appctx) s5;
                        s7 = LOG_INFO ''monovm_initialize returned %d'' s6;
                        s8 = select_aot_mode w (install_hooks s7);
                        s9 = (emit (Mono_jit_init_version ''dotnet.android'' ''mobile'') s8)
                               \<lparr>g_domain := mono_jit_init_version_rv w\<rparr>
                    in if g_domain s9 = None
                       then Returns (- 1) (LOG_ERROR ''mono_jit_init_version failed'' s9)
                       else
                         (case mono_droid_load_assembly w executable None s9 of
                            Aborts s10 \<Rightarrow> Aborts s10
                          | Returns assembly s10 \<Rightarrow>
                              let s11 = s10\<lparr>g_assembly := assembly\<rparr> in
                              if g_assembly s11 = None
                              then Returns (- 1) (LOG_ERROR ''mono_droid_load_assembly failed'' s11)
                              else Returns rv s11)))"

subsection \<open>Teardown and execution\<close>

definition free_resources :: "shim \<Rightarrow> shim" where
  "free_resources s =
     (let s1 = (case g_bundle_path s of
                  None \<Rightarrow> s
                | Some bundle_path \<Rightarrow> (emit (Free bundle_path) s)\<lparr>g_bundle_path := None\<rparr>);
          s2 = (case g_assembly s1 of
                  None \<Rightarrow> s1
                | Some assembly \<Rightarrow> (emit (Mono_assembly_close assembly) s1)\<lparr>g_assembly := None\<rparr>);
          s3 = (case g_domain s2 of
                  None \<Rightarrow> s2
                | Some domain \<Rightarrow>
                    (emit (Mono_domain_finalize domain 0) (emit (Mono_domain_set domain False) s2))
                      \<lparr>g_domain := None\<rparr>)
      in s3)"

definition mono_droid_execute_assembly ::
  "world \<Rightarrow> handle \<Rightarrow> handle \<Rightarrow> int \<Rightarrow> string list \<Rightarrow> shim \<Rightarrow> int outcome" where
  "mono_droid_execute_assembly w domain assembly managed_argc managed_argv s =
     (let s1 = LOG_INFO ''Calling mono_jit_exec'' s;
          rv = mono_jit_exec_rv w domain assembly managed_argc managed_argv;
          s2 = emit (Mono_jit_exec domain assembly managed_argc managed_argv) s1;
          s3 = LOG_INFO ''Exit code: %d.'' s2;
          s4 = emit (Mono_jit_cleanup domain) s3
      in Returns rv s4)"

subsection \<open>The JNI entry points\<close>

text \<open>
  A \<^verbatim>\<open>jstring\<close> is the string it holds. \<^verbatim>\<open>strncpy_str (env, buff, str, nbuff)\<close> leaves in
  \<open>buff\<close> the first \<open>nbuff - 1\<close> characters of the string.
\<close>

definition strncpy_str :: "string \<Rightarrow> nat \<Rightarrow> string" where
  "strncpy_str str nbuff = take (nbuff - 1) str"

definition Java_net_dot_MonoRunner_setEnv :: "string \<Rightarrow> string \<Rightarrow> shim \<Rightarrow> unit outcome" where
  "Java_net_dot_MonoRunner_setEnv j_key j_value s =
     (let s1 = LOG_INFO ''Java_net_dot_MonoRunner_setEnv:'' s in
      if \<not> g_domain s1 = None then Aborts s1
      else
        let s2 = LOG_INFO ''Setting env var: %s=%s'' s1
        in Returns () (emit (Setenv j_key j_value True) s2))"

text \<open>
  The parameter \<^verbatim>\<open>long current_local_time\<close> is passed on as an \<^verbatim>\<open>int\<close>. The bundle path is
  stored only when its \<^verbatim>\<open>malloc\<close> succeeds.
\<close>

definition Java_net_dot_MonoRunner_initRuntime ::
  "world \<Rightarrow> string \<Rightarrow> string \<Rightarrow> int \<Rightarrow> shim \<Rightarrow> int outcome" where
  "Java_net_dot_MonoRunner_initRuntime w j_files_dir j_entryPointLibName current_local_time s =
     (let s1 = LOG_INFO ''Java_net_dot_MonoRunner_initRuntime (Mono):'' s;
          file_dir = strncpy_str j_files_dir 2048;
          entryPointLibName = strncpy_str j_entryPointLibName 2048
      in if \<not> malloc_ok w
         then Returns (- 1) (LOG_ERROR ''Failed to allocate memory for bundle_path'' s1)
         else
           let s2 = s1\<lparr>g_bundle_path := Some file_dir\<rparr>
           in mono_droid_runtime_init w entryPointLibName (int32 current_local_time) s2)"

text \<open>
  Lines 436-442: the vector has \<^verbatim>\<open>managed_argc\<close> slots, slot 0 receives the bundle path and
  the loop stores argument \<open>i\<close> in slot \<open>i + 1\<close>. The slots start out as the empty string here
  (the C buffer is uninitialised; the loop overwrites every slot).
\<close>

function fill_argv :: "string list \<Rightarrow> nat \<Rightarrow> string list \<Rightarrow> string list" where
  "fill_argv j_args i managed_argv =
     (if i < length j_args
      then fill_argv j_args (i + 1) (managed_argv[i + 1 := j_args ! i])
      else managed_argv)"
  by pat_completeness auto
termination
  by (relation "measure (\<lambda>(j_args, i, managed_argv). length j_args - i)") auto

declare fill_argv.simps [simp del]

definition Java_net_dot_MonoRunner_execEntryPoint ::
  "world \<Rightarrow> string \<Rightarrow> string list \<Rightarrow> shim \<Rightarrow> int outcome" where
  "Java_net_dot_MonoRunner_execEntryPoint w j_entryPointLibName j_args s =
     (let s1 = LOG_INFO ''Java_net_dot_MonoRunner_execEntryPoint (Mono):'' s in
      case g_bundle_path s1 of
        None \<Rightarrow> Returns (- 1) (LOG_ERROR ''Bundle path or executable name not set'' s1)
      | Some bundle_path \<Rightarrow>
          if g_domain s1 = None \<or> g_assembly s1 = None
          then Returns (- 1) (LOG_ERROR ''Mono domain or assembly not initialized'' s1)
          else
            let args_len = int (length j_args);
                managed_argc = int32 (args_len + 1);
                managed_argv = fill_argv j_args 0 ((replicate (nat managed_argc) [])[0 := bundle_path])
            in mono_droid_execute_assembly w (the (g_domain s1)) (the (g_assembly s1))
                 managed_argc managed_argv s1)"

definition Java_net_dot_MonoRunner_freeNativeResources :: "shim \<Rightarrow> unit outcome" where
  "Java_net_dot_MonoRunner_freeNativeResources s =
     Returns () (free_resources (LOG_INFO ''Java_net_dot_MonoRunner_freeNativeResources (Mono):'' s))"

subsection \<open>Sequences of lifecycle operations\<close>

text \<open>
  The four operations the Java host can call, each with the world it meets, and the state
  after a sequence of them (\<open>None\<close> when one of them aborted the process).
\<close>

datatype lifecycle_op =
    SetEnv string string
  | InitRuntime world string string int
  | ExecEntryPoint world string "string list"
  | FreeNativeResources

definition continues :: "'a outcome \<Rightarrow> shim option" where
  "continues r = (case r of Returns v s \<Rightarrow> Some s | Aborts s \<Rightarrow> None)"

definition lifecycle_step :: "lifecycle_op \<Rightarrow> shim \<Rightarrow> shim option" where
  "lifecycle_step operation s =
     (case operation of
        SetEnv k v \<Rightarrow> continues (Java_net_dot_MonoRunner_setEnv k v s)
      | InitRuntime w d e t \<Rightarrow> continues (Java_net_dot_MonoRunner_initRuntime w d e t s)
      | ExecEntryPoint w e args \<Rightarrow> continues (Java_net_dot_MonoRunner_execEntryPoint w e args s)
      | FreeNativeResources \<Rightarrow> continues (Java_net_dot_MonoRunner_freeNativeResources s))"

fun lifecycle_run :: "lifecycle_op list \<Rightarrow> shim \<Rightarrow> shim option" where
  "lifecycle_run [] s = Some s"
| "lifecycle_run (operation # rest) s =
     (case lifecycle_step operation s of
        None \<Rightarrow> None
      | Some s' \<Rightarrow> lifecycle_run rest s')"


fun is_Mono_jit_exec :: "call \<Rightarrow> bool" where
  "is_Mono_jit_exec (Mono_jit_exec d a argc argv) = True"
| "is_Mono_jit_exec other = False"

fun is_log :: "call \<Rightarrow> bool" where
  "is_log (Android_log_print prio tag fmt) = True"
| "is_log other = False"

fun is_release :: "call \<Rightarrow> bool" where
  "is_release (Free p) = True"
| "is_release (Mono_assembly_close a) = True"
| "is_release (Mono_domain_set d b) = True"
| "is_release (Mono_domain_finalize d n) = True"
| "is_release other = False"

subsection \<open>Initialisation while the engine asks for AOT data\<close>

text \<open>
  Modelled from the spec: the engine's side of the AOT data hook. The engine is not part of
  \<^verbatim>\<open>monodroid.c\<close>; the file only installs \<^verbatim>\<open>load_aot_data\<close> with
  \<^verbatim>\<open>mono_install_load_aot_data_hook\<close>. The specification says of the hook that it "maps an
  assembly to a memory-mapped \<^verbatim>\<open><name>.aotdata\<close> file", that "absence is non-fatal, just means
  no AOT data", and that a missing file "silently degrades to non-AOT path". So
  \<^verbatim>\<open>mono_assembly_open\<close> is taken to work as follows: the engine opens the file (the answer is
  \<open>mono_assembly_open_rv\<close>); when it has an assembly and wants AOT data of \<open>siz\<close> bytes for it
  (\<open>aot_request = Some siz\<close>), it calls the installed hook, here \<open>load_aot_data\<close> of this
  file, in the current state; the hook's pointer decides only between the AOT and the
  non-AOT path, and the assembly is returned in both cases. A hook that aborts ends the
  process inside \<^verbatim>\<open>mono_assembly_open\<close>.
\<close>

definition mono_assembly_open_aot ::
  "world \<Rightarrow> int option \<Rightarrow> string \<Rightarrow> shim \<Rightarrow> handle option outcome" where
  "mono_assembly_open_aot w aot_request path s =
     (let s1 = emit (Mono_assembly_open path) s in
      case mono_assembly_open_rv w path of
        None \<Rightarrow> Returns None s1
      | Some assembly \<Rightarrow>
          (case aot_request of
             None \<Rightarrow> Returns (Some assembly) s1
           | Some siz \<Rightarrow>
               (case load_aot_data w assembly siz s1 of
                  Aborts s2 \<Rightarrow> Aborts s2
                | Returns aot_data s2 \<Rightarrow> Returns (Some assembly) s2)))"

text \<open>
  The three functions of the file on the way from \<^verbatim>\<open>initRuntime\<close> to \<^verbatim>\<open>mono_assembly_open\<close>,
  as above, with the one difference that line 99 calls \<open>mono_assembly_open_aot\<close>. Without a
  request they are the functions above (lemma \<open>initRuntime_aot_None\<close> below).
\<close>

definition mono_droid_load_assembly_aot ::
  "world \<Rightarrow> int option \<Rightarrow> string \<Rightarrow> string option \<Rightarrow> shim \<Rightarrow> handle option outcome" where
  "mono_droid_load_assembly_aot w aot_request name culture s =
     (case g_bundle_path s of
        None \<Rightarrow> Aborts s
      | Some bundle_path \<Rightarrow>
          let s1 = LOG_INFO ''assembly_preload_hook: %s %s %s\<newline>'' s;
              (path, res) = load_assembly_path bundle_path name culture
          in if \<not> res > 0 then Aborts s1
             else
               let s2 = emit (Stat path) s1 in
               if stat_ok w path then
                 (case mono_assembly_open_aot w aot_request path s2 of
                    Aborts s3 \<Rightarrow> Aborts s3
                  | Returns None s3 \<Rightarrow> Aborts s3
                  | Returns (Some assembly) s3 \<Rightarrow> Returns (Some assembly) s3)
               else Returns None s2)"

definition mono_droid_runtime_init_aot ::
  "world \<Rightarrow> int option \<Rightarrow> string \<Rightarrow> int \<Rightarrow> shim \<Rightarrow> int outcome" where
  "mono_droid_runtime_init_aot w aot_request executable local_date_time_offset s =
     (let s1 = LOG_INFO ''mono_droid_runtime_init (Mono) called with executable: %s'' s;
          s2 = (case DIAGNOSTIC_PORTS w of
                  None \<Rightarrow> s1
                | Some ports \<Rightarrow> emit (Setenv ''DOTNET_DiagnosticPorts'' ports True) s1)
      in case g_bundle_path s2 of
           None \<Rightarrow> Aborts s2
         | Some bundle_path \<Rightarrow>
             let s3 = emit (Chdir bundle_path) s2;
                 appctx =
                   [(''RUNTIME_IDENTIFIER'', Str (ANDROID_RUNTIME_IDENTIFIER w)),
                    (''APP_CONTEXT_BASE_DIRECTORY'', Str bundle_path),
                    (''System.TimeZoneInfo.LocalDateTimeOffset'', Dec local_date_time_offset)]
             in (case load_runtimeconfig w bundle_path s3 of
                  Aborts s4 \<Rightarrow> Aborts s4
                | Returns u s4 \<Rightarrow>
                    let s5 = LOG_INFO ''Calling monovm_initialize'' s4;
                        rv = monovm_initialize_rv w;
                        s6 = emit (Monovm_initialize appctx) s5;
                        s7 = LOG_INFO ''monovm_initialize returned %d'' s6;
                        s8 = select_aot_mode w (install_hooks s7);
                        s9 = (emit (Mono_jit_init_version ''dotnet.android'' ''mobile'') s8)
                               \<lparr>g_domain := mono_jit_init_version_rv w\<rparr>
                    in if g_domain s9 = None
                       then Returns (- 1) (LOG_ERROR ''mono_jit_init_version failed'' s9)
                       else
                         (case mono_droid_load_assembly_aot w aot_request executable None s9 of
                            Aborts s10 \<Rightarrow> Aborts s10
                          | Returns assembly s10 \<Rightarrow>
                              let s11 = s10\<lparr>g_assembly := assembly\<rparr> in
                              if g_assembly s11 = None
                              then Returns (- 1) (LOG_ERROR ''mono_droid_load_assembly failed'' s11)
                              else Returns rv s11)))"

definition Java_net_dot_MonoRunner_initRuntime_aot ::
  "world \<Rightarrow> int option \<Rightarrow> string \<Rightarrow> string \<Rightarrow> int \<Rightarrow> shim \<Rightarrow> int outcome" where
  "Java_net_dot_MonoRunner_initRuntime_aot w aot_request j_files_dir j_entryPointLibName
       current_local_time s =
     (let s1 = LOG_INFO ''Java_net_dot_MonoRunner_initRuntime (Mono):'' s;
          file_dir = strncpy_str j_files_dir 2048;
          entryPointLibName = strncpy_str j_entryPointLibName 2048
      in if \<not> malloc_ok w
         then Returns (- 1) (LOG_ERROR ''Failed to allocate memory for bundle_path'' s1)
         else
           let s2 = s1\<lparr>g_bundle_path := Some file_dir\<rparr>
           in mono_droid_runtime_init_aot w aot_request entryPointLibName
                (int32 current_local_time) s2)"

subsection \<open>Notions used by the statements\<close>

text \<open>The three global fields, read together.\<close>

definition globals :: "shim \<Rightarrow> string option \<times> handle option \<times> handle option" where
  "globals s = (g_bundle_path s, g_domain s, g_assembly s)"

text \<open>
  The path that \<^verbatim>\<open>mono_droid_runtime_init\<close> hands to \<^verbatim>\<open>stat\<close> for the entry assembly when
  it is reached from \<^verbatim>\<open>Java_net_dot_MonoRunner_initRuntime\<close>: both strings have passed
  through the 2048-byte buffers of \<^verbatim>\<open>strncpy_str\<close>.
\<close>

definition entry_path :: "string \<Rightarrow> string \<Rightarrow> string" where
  "entry_path j_files_dir j_entryPointLibName =
     fst (load_assembly_path (strncpy_str j_files_dir 2048) (strncpy_str j_entryPointLibName 2048) None)"

text \<open>
  The candidate path as the specification words it: \<^verbatim>\<open>.dll\<close> is appended only when the
  name ends in neither \<^verbatim>\<open>.dll\<close> nor \<^verbatim>\<open>.exe\<close>; without a culture the candidate is
  \<^verbatim>\<open><bundle path>/<filename>\<close>, with a non-empty culture \<^verbatim>\<open><bundle path>/<culture>/<filename>\<close>.
  These two definitions follow the specification, not the C text; they are compared with
  \<open>load_assembly_filename\<close> and \<open>load_assembly_path\<close>.
\<close>

definition spec_filename :: "string \<Rightarrow> string" where
  "spec_filename name =
     (if suffix ''.dll'' name \<or> suffix ''.exe'' name then name else name @ ''.dll'')"

definition spec_candidate_path :: "string \<Rightarrow> string \<Rightarrow> string option \<Rightarrow> string" where
  "spec_candidate_path bundle_path name culture =
     (case culture of
        None \<Rightarrow> bundle_path @ ''/'' @ spec_filename name
      | Some c \<Rightarrow>
          if c = [] then bundle_path @ ''/'' @ spec_filename name
          else bundle_path @ ''/'' @ c @ ''/'' @ spec_filename name)"

text \<open>A domain or an assembly exists only when the bundle path is set.\<close>

definition bundle_path_first :: "shim \<Rightarrow> bool" where
  "bundle_path_first s = (g_bundle_path s \<noteq> None \<or> (g_domain s = None \<and> g_assembly s = None))"

subsection \<open>Concrete worlds and states\<close>

text \<open>
  A bundle directory \<^verbatim>\<open>/data/app\<close> that holds \<^verbatim>\<open>App.dll\<close> and nothing else, an engine that
  initialises with code 0, creates domain 1, opens every assembly as handle 2 and runs the
  program to exit code 42.
\<close>

definition world_ok :: world where
  "world_ok = \<lparr>ANDROID_RUNTIME_IDENTIFIER = ''android-arm64'', DIAGNOSTIC_PORTS = None,
     FORCE_INTERPRETER = False, FORCE_AOT = False, STATIC_AOT = False, FULL_AOT = False,
     malloc_ok = True, stat_ok = (\<lambda>p. p = ''/data/app/App.dll''), open_ok = (\<lambda>p. False),
     mmap_rv = (\<lambda>p n. None), mono_assembly_name = (\<lambda>h. ''App''),
     monovm_initialize_rv = 0, mono_jit_init_version_rv = Some 1,
     mono_assembly_open_rv = (\<lambda>p. Some 2),
     mono_jit_exec_rv = (\<lambda>d a argc argv. 42)\<rparr>"

text \<open>The same world, but \<^verbatim>\<open>monovm_initialize\<close> answers \<open>-1\<close>.\<close>

definition world_init_fails :: world where
  "world_init_fails = world_ok\<lparr>monovm_initialize_rv := - 1\<rparr>"

text \<open>The same world, but the bundle directory is empty.\<close>

definition world_no_assembly :: world where
  "world_no_assembly = world_ok\<lparr>stat_ok := (\<lambda>p. False)\<rparr>"

text \<open>The state after a successful initialisation in \<open>world_ok\<close>, with an empty call log.\<close>

definition shim_ready :: shim where
  "shim_ready = \<lparr>g_bundle_path = Some ''/data/app'', g_domain = Some 1, g_assembly = Some 2, calls = []\<rparr>"

section \<open>Properties\<close>

subsection \<open>What the logging helpers change\<close>

lemma emit_fields [simp]:
  "g_bundle_path (emit c s) = g_bundle_path s"
  "g_domain (emit c s) = g_domain s"
  "g_assembly (emit c s) = g_assembly s"
  "calls (emit c s) = calls s @ [c]"
  by (simp_all add: emit_def)

lemma LOG_INFO_fields [simp]:
  "g_bundle_path (LOG_INFO fmt s) = g_bundle_path s"
  "g_domain (LOG_INFO fmt s) = g_domain s"
  "g_assembly (LOG_INFO fmt s) = g_assembly s"
  "calls (LOG_INFO fmt s) = calls s @ [Android_log_print ANDROID_LOG_DEBUG ''DOTNET'' fmt]"
  by (simp_all add: LOG_INFO_def)

lemma LOG_ERROR_fields [simp]:
  "g_bundle_path (LOG_ERROR fmt s) = g_bundle_path s"
  "g_domain (LOG_ERROR fmt s) = g_domain s"
  "g_assembly (LOG_ERROR fmt s) = g_assembly s"
  "calls (LOG_ERROR fmt s) = calls s @ [Android_log_print ANDROID_LOG_ERROR ''DOTNET'' fmt]"
  by (simp_all add: LOG_ERROR_def)

lemma int32_id: "- 2147483648 \<le> x \<Longrightarrow> x < 2147483648 \<Longrightarrow> int32 x = x"
  by (simp add: int32_def)

subsection \<open>Execution before initialisation\<close>

text \<open>
  Claim C1. Whenever \<^verbatim>\<open>execEntryPoint\<close> is called while the bundle path is unset, or while the
  domain handle or the entry-assembly handle is null, it returns \<open>-1\<close>, leaves the three
  globals as they were, and calls nothing but the Android log: in particular not
  \<^verbatim>\<open>mono_jit_exec\<close>.
\<close>

theorem execEntryPoint_before_initialize:
  assumes "g_bundle_path s = None \<or> g_domain s = None \<or> g_assembly s = None"
  shows "\<exists>s' logs.
           Java_net_dot_MonoRunner_execEntryPoint w j_entryPointLibName j_args s = Returns (- 1) s' \<and>
           globals s' = globals s \<and>
           calls s' = calls s @ logs \<and> list_all is_log logs \<and> \<not> list_ex is_Mono_jit_exec logs"
  using assms
  by (auto simp: Java_net_dot_MonoRunner_execEntryPoint_def globals_def Let_def
           split: option.splits)

text \<open>The statement at the initial state, where all three globals are null.\<close>

theorem execEntryPoint_before_initialize_witness:
  "g_bundle_path shim_init = None \<and>
   (\<exists>s' logs.
      Java_net_dot_MonoRunner_execEntryPoint world_ok ''App'' [''x''] shim_init = Returns (- 1) s' \<and>
      globals s' = globals shim_init \<and>
      calls s' = calls shim_init @ logs \<and> list_all is_log logs \<and> \<not> list_ex is_Mono_jit_exec logs)"
  using execEntryPoint_before_initialize [of shim_init world_ok "''App''" "[''x'']"]
  by (simp add: shim_init_def)

subsection \<open>Release\<close>

lemma free_resources_fields:
  "g_bundle_path (free_resources s) = None"
  "g_assembly (free_resources s) = None"
  "g_domain (free_resources s) = None"
  "calls (free_resources s) =
     calls s
     @ (case g_bundle_path s of None \<Rightarrow> [] | Some p \<Rightarrow> [Free p])
     @ (case g_assembly s of None \<Rightarrow> [] | Some a \<Rightarrow> [Mono_assembly_close a])
     @ (case g_domain s of None \<Rightarrow> [] | Some d \<Rightarrow> [Mono_domain_set d False, Mono_domain_finalize d 0])"
  by (simp_all add: free_resources_def Let_def split: option.splits)

text \<open>
  Claim C3. From any state, \<^verbatim>\<open>freeNativeResources\<close> returns with the bundle path, the assembly
  handle and the domain handle all null; among the calls it makes, the releasing ones
  (\<^verbatim>\<open>free\<close>, \<^verbatim>\<open>mono_assembly_close\<close>, \<^verbatim>\<open>mono_domain_set\<close> with \<^verbatim>\<open>mono_domain_finalize\<close>) are
  exactly those of the fields that were non-null, in this order; a second call right after
  makes no releasing call and leaves all three fields null.
\<close>

theorem release_idempotent:
  "\<exists>s1 s2.
     Java_net_dot_MonoRunner_freeNativeResources s = Returns () s1 \<and>
     globals s1 = (None, None, None) \<and>
     filter is_release (drop (length (calls s)) (calls s1)) =
         (case g_bundle_path s of None \<Rightarrow> [] | Some p \<Rightarrow> [Free p])
       @ (case g_assembly s of None \<Rightarrow> [] | Some a \<Rightarrow> [Mono_assembly_close a])
       @ (case g_domain s of None \<Rightarrow> [] | Some d \<Rightarrow> [Mono_domain_set d False, Mono_domain_finalize d 0]) \<and>
     Java_net_dot_MonoRunner_freeNativeResources s1 = Returns () s2 \<and>
     globals s2 = (None, None, None) \<and>
     filter is_release (drop (length (calls s1)) (calls s2)) = []"
  by (simp add: Java_net_dot_MonoRunner_freeNativeResources_def globals_def free_resources_fields
           split: option.splits)

subsection \<open>Setting the environment\<close>

text \<open>
  Claim C7. \<^verbatim>\<open>setEnv\<close> must run before initialisation: with a non-null domain handle the
  assertion fails and the call does not return; with a null domain handle it returns, the
  three globals are unchanged, and apart from log lines its only call is
  \<^verbatim>\<open>setenv (key, value, true)\<close>.
\<close>

theorem setEnv_before_initialize:
  "(g_domain s \<noteq> None \<longrightarrow> returned (Java_net_dot_MonoRunner_setEnv j_key j_value s) = None) \<and>
   (g_domain s = None \<longrightarrow>
      (\<exists>s'. Java_net_dot_MonoRunner_setEnv j_key j_value s = Returns () s' \<and>
            globals s' = globals s \<and>
            filter (\<lambda>c. \<not> is_log c) (drop (length (calls s)) (calls s')) = [Setenv j_key j_value True]))"
  by (simp add: Java_net_dot_MonoRunner_setEnv_def returned_def globals_def Let_def)

text \<open>Both cases: a state with a domain, and the initial state.\<close>

theorem setEnv_before_initialize_witness:
  "g_domain shim_ready \<noteq> None \<and>
   returned (Java_net_dot_MonoRunner_setEnv ''MONO_LOG_LEVEL'' ''debug'' shim_ready) = None \<and>
   g_domain shim_init = None \<and>
   (\<exists>s'. Java_net_dot_MonoRunner_setEnv ''MONO_LOG_LEVEL'' ''debug'' shim_init = Returns () s' \<and>
         globals s' = globals shim_init \<and>
         filter (\<lambda>c. \<not> is_log c) (drop (length (calls shim_init)) (calls s')) =
           [Setenv ''MONO_LOG_LEVEL'' ''debug'' True])"
  using setEnv_before_initialize [of shim_ready "''MONO_LOG_LEVEL''" "''debug''"]
        setEnv_before_initialize [of shim_init "''MONO_LOG_LEVEL''" "''debug''"]
  by (simp add: shim_init_def shim_ready_def)

subsection \<open>Initialisation\<close>

lemma install_hooks_fields [simp]:
  "g_bundle_path (install_hooks s) = g_bundle_path s"
  "g_domain (install_hooks s) = g_domain s"
  "g_assembly (install_hooks s) = g_assembly s"
  by (simp_all add: install_hooks_def)

lemma select_aot_mode_fields [simp]:
  "g_bundle_path (select_aot_mode w s) = g_bundle_path s"
  "g_domain (select_aot_mode w s) = g_domain s"
  "g_assembly (select_aot_mode w s) = g_assembly s"
  by (simp_all add: select_aot_mode_def Let_def)

text \<open>The \<^verbatim>\<open>snprintf\<close> of lines 91-94 always reports a positive length: the assertion holds.\<close>

lemma load_assembly_res_pos: "0 < snd (load_assembly_path bundle_path name culture)"
  by (simp add: load_assembly_path_def snprintf_def Let_def)

text \<open>
  For a bundle path that went through the 2048-byte buffer, the assertion on the length of
  the runtime configuration path holds, and the globals are not touched.
\<close>

lemma load_runtimeconfig_returns:
  assumes "length bundle_path \<le> 2047"
  shows "\<exists>s'. load_runtimeconfig w bundle_path s = Returns () s' \<and>
              g_bundle_path s' = g_bundle_path s \<and> g_domain s' = g_domain s \<and>
              g_assembly s' = g_assembly s"
proof -
  have "int32 (int (length bundle_path) + int (length RUNTIMECONFIG_BIN_FILE) + 1)
          = int (length bundle_path) + int (length RUNTIMECONFIG_BIN_FILE) + 1"
    using assms by (intro int32_id) (simp_all add: RUNTIMECONFIG_BIN_FILE_def)
  then show ?thesis
    by (simp add: load_runtimeconfig_def snprintf_def Let_def)
qed

lemma mono_droid_load_assembly_unfold:
  assumes "g_bundle_path s = Some bundle_path"
  shows "mono_droid_load_assembly w name culture s =
           (let path = fst (load_assembly_path bundle_path name culture);
                s2 = emit (Stat path) (LOG_INFO ''assembly_preload_hook: %s %s %s\<newline>'' s)
            in if stat_ok w path then
                 (case mono_assembly_open_rv w path of
                    None \<Rightarrow> Aborts (emit (Mono_assembly_open path) s2)
                  | Some assembly \<Rightarrow> Returns (Some assembly) (emit (Mono_assembly_open path) s2))
               else Returns None s2)"
proof (cases "load_assembly_path bundle_path name culture")
  case (Pair path res)
  with load_assembly_res_pos [of bundle_path name culture] have "0 < res"
    by simp
  with Pair assms show ?thesis
    by (simp add: mono_droid_load_assembly_def Let_def)
qed

text \<open>
  The return value and the final globals of \<^verbatim>\<open>mono_droid_runtime_init\<close>. When the assertion
  on \<^verbatim>\<open>mono_assembly_open\<close> fails, \<^verbatim>\<open>g_assembly\<close> has not been assigned yet.
\<close>

lemma runtime_init_result:
  assumes "g_bundle_path s = Some bundle_path" and "length bundle_path \<le> 2047"
  shows "returned (mono_droid_runtime_init w executable t s) =
           (if mono_jit_init_version_rv w = None then Some (- 1)
            else if \<not> stat_ok w (fst (load_assembly_path bundle_path executable None)) then Some (- 1)
            else if mono_assembly_open_rv w (fst (load_assembly_path bundle_path executable None)) = None
                 then None
            else Some (monovm_initialize_rv w))"
    and "globals (final (mono_droid_runtime_init w executable t s)) =
           (Some bundle_path, mono_jit_init_version_rv w,
            if mono_jit_init_version_rv w = None then g_assembly s
            else if stat_ok w (fst (load_assembly_path bundle_path executable None))
                 then (case mono_assembly_open_rv w (fst (load_assembly_path bundle_path executable None)) of
                         None \<Rightarrow> g_assembly s
                       | Some assembly \<Rightarrow> Some assembly)
            else None)"
proof -
  let ?s2 = "case DIAGNOSTIC_PORTS w of
               None \<Rightarrow> LOG_INFO ''mono_droid_runtime_init (Mono) called with executable: %s'' s
             | Some ports \<Rightarrow> emit (Setenv ''DOTNET_DiagnosticPorts'' ports True)
                 (LOG_INFO ''mono_droid_runtime_init (Mono) called with executable: %s'' s)"
  have f2: "g_bundle_path ?s2 = Some bundle_path" "g_domain ?s2 = g_domain s"
    "g_assembly ?s2 = g_assembly s"
    using assms(1) by (simp_all split: option.splits)
  obtain s4 where s4: "load_runtimeconfig w bundle_path (emit (Chdir bundle_path) ?s2) = Returns () s4"
    and f4: "g_bundle_path s4 = Some bundle_path" "g_domain s4 = g_domain s"
      "g_assembly s4 = g_assembly s"
    using load_runtimeconfig_returns [OF assms(2), of w "emit (Chdir bundle_path) ?s2"] f2
    by auto
  show "returned (mono_droid_runtime_init w executable t s) =
           (if mono_jit_init_version_rv w = None then Some (- 1)
            else if \<not> stat_ok w (fst (load_assembly_path bundle_path executable None)) then Some (- 1)
            else if mono_assembly_open_rv w (fst (load_assembly_path bundle_path executable None)) = None
                 then None
            else Some (monovm_initialize_rv w))"
    using f2 s4 f4
    by (auto simp: mono_droid_runtime_init_def Let_def returned_def
                   mono_droid_load_assembly_unfold)
  show "globals (final (mono_droid_runtime_init w executable t s)) =
           (Some bundle_path, mono_jit_init_version_rv w,
            if mono_jit_init_version_rv w = None then g_assembly s
            else if stat_ok w (fst (load_assembly_path bundle_path executable None))
                 then (case mono_assembly_open_rv w (fst (load_assembly_path bundle_path executable None)) of
                         None \<Rightarrow> g_assembly s
                       | Some assembly \<Rightarrow> Some assembly)
            else None)"
    using f2 s4 f4
    by (cases "mono_assembly_open_rv w (fst (load_assembly_path bundle_path executable None))")
       (auto simp: mono_droid_runtime_init_def Let_def final_def globals_def
                   mono_droid_load_assembly_unfold)
qed

lemma initRuntime_result:
  "returned (Java_net_dot_MonoRunner_initRuntime w d e t s) =
     (if \<not> malloc_ok w then Some (- 1)
      else if mono_jit_init_version_rv w = None then Some (- 1)
      else if \<not> stat_ok w (entry_path d e) then Some (- 1)
      else if mono_assembly_open_rv w (entry_path d e) = None then None
      else Some (monovm_initialize_rv w))"
  "globals (final (Java_net_dot_MonoRunner_initRuntime w d e t s)) =
     (if \<not> malloc_ok w then globals s
      else (Some (strncpy_str d 2048), mono_jit_init_version_rv w,
            if mono_jit_init_version_rv w = None then g_assembly s
            else if stat_ok w (entry_path d e)
                 then (case mono_assembly_open_rv w (entry_path d e) of
                         None \<Rightarrow> g_assembly s
                       | Some assembly \<Rightarrow> Some assembly)
            else None))"
proof -
  let ?s2 = "(LOG_INFO ''Java_net_dot_MonoRunner_initRuntime (Mono):'' s)
               \<lparr>g_bundle_path := Some (strncpy_str d 2048)\<rparr>"
  have b: "g_bundle_path ?s2 = Some (strncpy_str d 2048)" and l: "length (strncpy_str d 2048) \<le> 2047"
    by (simp_all add: strncpy_str_def)
  note r = runtime_init_result [OF b l, of w "strncpy_str e 2048" "int32 t"]
  show "returned (Java_net_dot_MonoRunner_initRuntime w d e t s) =
     (if \<not> malloc_ok w then Some (- 1)
      else if mono_jit_init_version_rv w = None then Some (- 1)
      else if \<not> stat_ok w (entry_path d e) then Some (- 1)
      else if mono_assembly_open_rv w (entry_path d e) = None then None
      else Some (monovm_initialize_rv w))"
    using r(1)
    by (simp add: Java_net_dot_MonoRunner_initRuntime_def Let_def entry_path_def returned_def)
  show "globals (final (Java_net_dot_MonoRunner_initRuntime w d e t s)) =
     (if \<not> malloc_ok w then globals s
      else (Some (strncpy_str d 2048), mono_jit_init_version_rv w,
            if mono_jit_init_version_rv w = None then g_assembly s
            else if stat_ok w (entry_path d e)
                 then (case mono_assembly_open_rv w (entry_path d e) of
                         None \<Rightarrow> g_assembly s
                       | Some assembly \<Rightarrow> Some assembly)
            else None))"
    using r(2)
    by (simp add: Java_net_dot_MonoRunner_initRuntime_def Let_def entry_path_def final_def
                  globals_def split: option.splits)
qed

lemma entry_path_App: "entry_path ''/data/app'' ''App'' = ''/data/app/App.dll''"
  by (simp add: entry_path_def strncpy_str_def load_assembly_path_def load_assembly_filename_def
                has_extension_def int32_def strlcpy_def strlcat_def snprintf_def Let_def)

text \<open>
  Claim C4, as amended. \<^verbatim>\<open>initRuntime\<close> returns \<open>-1\<close> when the allocation of the bundle path
  fails, when \<^verbatim>\<open>mono_jit_init_version\<close> yields a null domain, and when the entry assembly is
  not found by \<^verbatim>\<open>stat\<close>; it does not return (the assertion on \<^verbatim>\<open>mono_assembly_open\<close> fails)
  when the file is found and the engine cannot open it; in every other case it returns the
  code that \<^verbatim>\<open>monovm_initialize\<close> produced, whatever the build configuration and the steps in
  between. That code may itself be \<open>-1\<close>, so a result of \<open>-1\<close> does not tell that the domain
  or the assembly failed.
\<close>

theorem initRuntime_return_code:
  "returned (Java_net_dot_MonoRunner_initRuntime w j_files_dir j_entryPointLibName current_local_time s) =
     (if \<not> malloc_ok w then Some (- 1)
      else if mono_jit_init_version_rv w = None then Some (- 1)
      else if \<not> stat_ok w (entry_path j_files_dir j_entryPointLibName) then Some (- 1)
      else if mono_assembly_open_rv w (entry_path j_files_dir j_entryPointLibName) = None then None
      else Some (monovm_initialize_rv w))"
  by (rule initRuntime_result)

text \<open>
  The claim as stated (\<open>-1\<close> exactly when the domain is null or the entry assembly fails to
  load) fails where \<^verbatim>\<open>monovm_initialize\<close> answers \<open>-1\<close>: the domain is created, the assembly
  is loaded, and the result is \<open>-1\<close>.
\<close>

theorem initRuntime_minus_one_without_failure:
  "returned (Java_net_dot_MonoRunner_initRuntime world_init_fails ''/data/app'' ''App'' 0 shim_init) = Some (- 1) \<and>
   malloc_ok world_init_fails \<and>
   mono_jit_init_version_rv world_init_fails = Some 1 \<and>
   globals (final (Java_net_dot_MonoRunner_initRuntime world_init_fails ''/data/app'' ''App'' 0 shim_init))
     = (Some ''/data/app'', Some 1, Some 2)"
  by (simp add: initRuntime_result entry_path_App world_init_fails_def world_ok_def strncpy_str_def)

subsection \<open>The lifecycle of the three globals\<close>

lemma execEntryPoint_globals:
  "\<exists>rv s'. Java_net_dot_MonoRunner_execEntryPoint w e args s = Returns rv s' \<and> globals s' = globals s"
  by (simp add: Java_net_dot_MonoRunner_execEntryPoint_def mono_droid_execute_assembly_def
                Let_def globals_def split: option.splits)

lemma setEnv_globals:
  "Java_net_dot_MonoRunner_setEnv k v s = Returns u s' \<Longrightarrow> globals s' = globals s"
  by (auto simp: Java_net_dot_MonoRunner_setEnv_def Let_def globals_def split: if_splits)

lemma freeNativeResources_globals:
  "\<exists>s'. Java_net_dot_MonoRunner_freeNativeResources s = Returns () s' \<and> globals s' = (None, None, None)"
  by (simp add: Java_net_dot_MonoRunner_freeNativeResources_def globals_def free_resources_fields)

lemma initRuntime_handles:
  assumes "g_domain s = None" and "g_assembly s = None"
      and "Java_net_dot_MonoRunner_initRuntime w d e t s = Returns rv s1"
  shows "(g_domain s1 = None \<and> g_assembly s1 = None \<and> rv = - 1) \<or>
         (g_domain s1 \<noteq> None \<and> g_assembly s1 = None \<and> rv = - 1) \<or>
         (g_domain s1 \<noteq> None \<and> g_assembly s1 \<noteq> None \<and> rv = monovm_initialize_rv w)"
proof -
  from assms(3) have "returned (Java_net_dot_MonoRunner_initRuntime w d e t s) = Some rv"
    and "final (Java_net_dot_MonoRunner_initRuntime w d e t s) = s1"
    by (simp_all add: returned_def final_def)
  with initRuntime_result [of w d e t s] assms(1,2) show ?thesis
    by (auto simp: globals_def split: if_splits)
qed

lemma initRuntime_bundle_path_first:
  assumes "bundle_path_first s"
  shows "bundle_path_first (final (Java_net_dot_MonoRunner_initRuntime w d e t s))"
  using assms initRuntime_result(2) [of w d e t s]
  by (auto simp: bundle_path_first_def globals_def split: if_splits)

lemma lifecycle_step_bundle_path_first:
  assumes "bundle_path_first s" and "lifecycle_step operation s = Some s'"
  shows "bundle_path_first s'"
proof (cases operation)
  case (SetEnv k v)
  with assms(2) obtain u where "Java_net_dot_MonoRunner_setEnv k v s = Returns u s'"
    by (auto simp: lifecycle_step_def continues_def split: outcome.splits)
  from setEnv_globals [OF this] assms(1) show ?thesis
    by (simp add: bundle_path_first_def globals_def)
next
  case (InitRuntime w d e t)
  with assms(2) have "final (Java_net_dot_MonoRunner_initRuntime w d e t s) = s'"
    by (auto simp: lifecycle_step_def continues_def final_def split: outcome.splits)
  with initRuntime_bundle_path_first [OF assms(1), of w d e t] show ?thesis
    by simp
next
  case (ExecEntryPoint w e args)
  with assms(2) execEntryPoint_globals [of w e args s] have "globals s' = globals s"
    by (auto simp: lifecycle_step_def continues_def)
  with assms(1) show ?thesis
    by (simp add: bundle_path_first_def globals_def)
next
  case FreeNativeResources
  with assms(2) freeNativeResources_globals [of s] have "globals s' = (None, None, None)"
    by (auto simp: lifecycle_step_def continues_def)
  then show ?thesis
    by (simp add: bundle_path_first_def globals_def)
qed

lemma lifecycle_run_bundle_path_first:
  "bundle_path_first s \<Longrightarrow> lifecycle_run ops s = Some s' \<Longrightarrow> bundle_path_first s'"
proof (induction ops arbitrary: s)
  case Nil
  then show ?case by simp
next
  case (Cons operation rest)
  from Cons.prems(2) obtain s1 where s1: "lifecycle_step operation s = Some s1"
    and rest: "lifecycle_run rest s1 = Some s'"
    by (auto split: option.splits)
  from lifecycle_step_bundle_path_first [OF Cons.prems(1) s1] rest show ?case
    by (rule Cons.IH)
qed

text \<open>
  Claim C6, as amended. Release leaves the bundle path, the domain handle and the assembly
  handle null. \<^verbatim>\<open>setEnv\<close> and \<^verbatim>\<open>execEntryPoint\<close>, when they return, leave the three as they
  were. Initialisation is not all-or-nothing: started with both handles null, when it
  returns, either both handles are still null and the result is \<open>-1\<close>, or the domain handle
  is set and the assembly handle is null and the result is \<open>-1\<close> (no rollback), or both
  handles are set and the result is the code of \<^verbatim>\<open>monovm_initialize\<close>. In every state reached
  from the initial state by lifecycle operations, a non-null domain or assembly handle comes
  with a non-null bundle path.
\<close>

theorem lifecycle_handles:
  "(\<exists>s'. Java_net_dot_MonoRunner_freeNativeResources s = Returns () s' \<and> globals s' = (None, None, None)) \<and>
   (Java_net_dot_MonoRunner_setEnv k v s_env = Returns u s_env' \<longrightarrow> globals s_env' = globals s_env) \<and>
   (Java_net_dot_MonoRunner_execEntryPoint w_exec e_exec args s_exec = Returns rv_exec s_exec' \<longrightarrow>
      globals s_exec' = globals s_exec) \<and>
   (g_domain s_init = None \<and> g_assembly s_init = None \<and>
    Java_net_dot_MonoRunner_initRuntime w d e t s_init = Returns rv s_init' \<longrightarrow>
      (g_domain s_init' = None \<and> g_assembly s_init' = None \<and> rv = - 1) \<or>
      (g_domain s_init' \<noteq> None \<and> g_assembly s_init' = None \<and> rv = - 1) \<or>
      (g_domain s_init' \<noteq> None \<and> g_assembly s_init' \<noteq> None \<and> rv = monovm_initialize_rv w)) \<and>
   (lifecycle_run ops shim_init = Some s_run \<longrightarrow> bundle_path_first s_run)"
proof -
  have "bundle_path_first shim_init"
    by (simp add: bundle_path_first_def shim_init_def)
  then have "lifecycle_run ops shim_init = Some s_run \<longrightarrow> bundle_path_first s_run"
    using lifecycle_run_bundle_path_first by blast
  moreover have "Java_net_dot_MonoRunner_execEntryPoint w_exec e_exec args s_exec = Returns rv_exec s_exec' \<longrightarrow>
      globals s_exec' = globals s_exec"
    using execEntryPoint_globals [of w_exec e_exec args s_exec] by auto
  ultimately show ?thesis
    using freeNativeResources_globals [of s] setEnv_globals [of k v s_env u s_env']
      initRuntime_handles [of s_init w d e t rv s_init']
    by blast
qed

text \<open>
  An initialisation that succeeds from the initial state: both handles are set, the result
  is the engine's code 0, and the state is one the lifecycle reaches.
\<close>

theorem lifecycle_handles_witness:
  "\<exists>s1. Java_net_dot_MonoRunner_initRuntime world_ok ''/data/app'' ''App'' 0 shim_init = Returns 0 s1 \<and>
        g_domain shim_init = None \<and> g_assembly shim_init = None \<and>
        g_domain s1 \<noteq> None \<and> g_assembly s1 \<noteq> None \<and>
        lifecycle_run [InitRuntime world_ok ''/data/app'' ''App'' 0] shim_init = Some s1 \<and>
        bundle_path_first s1"
proof -
  have "returned (Java_net_dot_MonoRunner_initRuntime world_ok ''/data/app'' ''App'' 0 shim_init) = Some 0"
    by (simp add: initRuntime_result entry_path_App world_ok_def)
  then obtain s1 where
    init: "Java_net_dot_MonoRunner_initRuntime world_ok ''/data/app'' ''App'' 0 shim_init = Returns 0 s1"
    by (auto simp: returned_def split: outcome.splits)
  then have run: "lifecycle_run [InitRuntime world_ok ''/data/app'' ''App'' 0] shim_init = Some s1"
    by (simp add: lifecycle_step_def continues_def)
  have null: "g_domain shim_init = None" "g_assembly shim_init = None"
    by (simp_all add: shim_init_def)
  have rv: "monovm_initialize_rv world_ok = 0"
    by (simp add: world_ok_def)
  from lifecycle_handles [where s_init = shim_init and w = world_ok and d = "''/data/app''"
      and e = "''App''" and t = 0 and rv = 0 and s_init' = s1
      and ops = "[InitRuntime world_ok ''/data/app'' ''App'' 0]" and s_run = s1]
    init run null rv
  have "g_domain s1 \<noteq> None \<and> g_assembly s1 \<noteq> None" and "bundle_path_first s1"
    by simp_all
  with init run null show ?thesis
    by blast
qed

text \<open>
  The claim as stated (the two handles are both null or both non-null after any operation)
  fails when the domain is created and the entry assembly is not found: \<^verbatim>\<open>initRuntime\<close>
  returns \<open>-1\<close> with the domain handle set and the assembly handle null.
\<close>

theorem initRuntime_partial_state:
  "returned (Java_net_dot_MonoRunner_initRuntime world_no_assembly ''/data/app'' ''App'' 0 shim_init) = Some (- 1) \<and>
   g_domain (final (Java_net_dot_MonoRunner_initRuntime world_no_assembly ''/data/app'' ''App'' 0 shim_init)) = Some 1 \<and>
   g_assembly (final (Java_net_dot_MonoRunner_initRuntime world_no_assembly ''/data/app'' ''App'' 0 shim_init)) = None"
  using initRuntime_result [of world_no_assembly "''/data/app''" "''App''" 0 shim_init]
  by (simp add: world_no_assembly_def world_ok_def globals_def)

subsection \<open>Execution after release\<close>





subsection \<open>Running the entry point\<close>

text \<open>After \<open>i\<close> rounds the loop of lines 438-442 has filled the slots \<open>1\<close> to \<open>i\<close>.\<close>

lemma fill_argv_take_drop:
  "i \<le> length j_args \<Longrightarrow> length managed_argv = length j_args + 1 \<Longrightarrow>
   fill_argv j_args i managed_argv = take (i + 1) managed_argv @ drop i j_args"
proof (induction j_args i managed_argv rule: fill_argv.induct)
  case (1 j_args i managed_argv)
  show ?case
  proof (cases "i < length j_args")
    case True
    let ?v = "managed_argv[i + 1 := j_args ! i]"
    have "fill_argv j_args i managed_argv = fill_argv j_args (i + 1) ?v"
      using True by (subst fill_argv.simps) simp
    also have "\<dots> = take (i + 1 + 1) ?v @ drop (i + 1) j_args"
      using True "1.prems" by (intro "1.IH") simp_all
    also have "take (i + 1 + 1) ?v = take (i + 1) managed_argv @ [j_args ! i]"
      using True "1.prems" by (simp add: take_Suc_conv_app_nth)
    also have "(take (i + 1) managed_argv @ [j_args ! i]) @ drop (i + 1) j_args
                 = take (i + 1) managed_argv @ drop i j_args"
      using True by (simp add: Cons_nth_drop_Suc)
    finally show ?thesis .
  next
    case False
    with "1.prems" have "i = length j_args"
      by simp
    then show ?thesis
      using "1.prems" by (subst fill_argv.simps) simp
  qed
qed

lemma fill_argv_vector:
  "fill_argv j_args 0 (bundle_path # replicate (length j_args) []) = bundle_path # j_args"
  by (simp add: fill_argv_take_drop)

text \<open>
  Claim C8. When the bundle path, the domain handle and the assembly handle are all set and
  the caller passes \<open>n\<close> arguments (with \<open>n + 1\<close> representable as a C \<^verbatim>\<open>int\<close>),
  \<^verbatim>\<open>execEntryPoint\<close> calls \<^verbatim>\<open>mono_jit_exec\<close> once, with the domain, the assembly, the count
  \<open>n + 1\<close> and the vector made of the bundle path followed by the \<open>n\<close> arguments in order,
  and returns exactly the exit code of that call; its only other call besides log lines is
  \<^verbatim>\<open>mono_jit_cleanup\<close>.
\<close>

theorem execEntryPoint_runs_assembly:
  assumes "g_bundle_path s = Some bundle_path" and "g_domain s = Some domain"
      and "g_assembly s = Some assembly" and "length j_args < 2147483647"
  shows "\<exists>s'.
           Java_net_dot_MonoRunner_execEntryPoint w j_entryPointLibName j_args s =
             Returns (mono_jit_exec_rv w domain assembly (int (length j_args) + 1) (bundle_path # j_args)) s' \<and>
           filter (\<lambda>c. \<not> is_log c) (drop (length (calls s)) (calls s')) =
             [Mono_jit_exec domain assembly (int (length j_args) + 1) (bundle_path # j_args),
              Mono_jit_cleanup domain] \<and>
           length (bundle_path # j_args) = length j_args + 1 \<and>
           (bundle_path # j_args) ! 0 = bundle_path \<and>
           (\<forall>i < length j_args. (bundle_path # j_args) ! (i + 1) = j_args ! i)"
proof -
  have argc: "int32 (int (length j_args) + 1) = int (length j_args) + 1"
    using assms(4) by (intro int32_id) simp_all
  have "nat (int (length j_args) + 1) = length j_args + 1"
    by simp
  then show ?thesis
    using assms(1-3) argc
    by (simp add: Java_net_dot_MonoRunner_execEntryPoint_def mono_droid_execute_assembly_def
                  Let_def fill_argv_vector)
qed

text \<open>Two arguments after a successful initialisation: the vector has three elements.\<close>

theorem execEntryPoint_runs_assembly_witness:
  "\<exists>s'. g_bundle_path shim_ready = Some ''/data/app'' \<and> g_domain shim_ready = Some 1 \<and>
     g_assembly shim_ready = Some 2 \<and>
     Java_net_dot_MonoRunner_execEntryPoint world_ok ''App'' [''-v'', ''x''] shim_ready = Returns 42 s' \<and>
     filter (\<lambda>c. \<not> is_log c) (drop (length (calls shim_ready)) (calls s')) =
       [Mono_jit_exec 1 2 3 [''/data/app'', ''-v'', ''x''], Mono_jit_cleanup 1]"
proof -
  have ready: "g_bundle_path shim_ready = Some ''/data/app''" "g_domain shim_ready = Some 1"
    "g_assembly shim_ready = Some 2"
    by (simp_all add: shim_ready_def)
  have "mono_jit_exec_rv world_ok 1 2 3 [''/data/app'', ''-v'', ''x''] = 42"
    by (simp add: world_ok_def)
  with execEntryPoint_runs_assembly [OF ready, of "[''-v'', ''x'']" world_ok "''App''"]
  obtain s' where
    "Java_net_dot_MonoRunner_execEntryPoint world_ok ''App'' [''-v'', ''x''] shim_ready = Returns 42 s'"
    "filter (\<lambda>c. \<not> is_log c) (drop (length (calls shim_ready)) (calls s')) =
       [Mono_jit_exec 1 2 3 [''/data/app'', ''-v'', ''x''], Mono_jit_cleanup 1]"
    by auto
  with ready show ?thesis
    by (intro exI [of _ s']) simp
qed

subsection \<open>Missing AOT data\<close>

text \<open>Without a request for AOT data the engine's open is the plain one.\<close>

lemma mono_assembly_open_aot_None:
  "mono_assembly_open_aot w None path s =
     (case mono_assembly_open_rv w path of
        None \<Rightarrow> Returns None (emit (Mono_assembly_open path) s)
      | Some assembly \<Rightarrow> Returns (Some assembly) (emit (Mono_assembly_open path) s))"
  by (simp add: mono_assembly_open_aot_def Let_def split: option.splits)

lemma mono_droid_load_assembly_aot_None:
  "mono_droid_load_assembly_aot w None = mono_droid_load_assembly w"
  by (auto simp: fun_eq_iff mono_droid_load_assembly_aot_def mono_droid_load_assembly_def
                mono_assembly_open_aot_None Let_def split: option.splits prod.splits)

lemma mono_droid_runtime_init_aot_None:
  "mono_droid_runtime_init_aot w None = mono_droid_runtime_init w"
  unfolding mono_droid_runtime_init_aot_def mono_droid_runtime_init_def
    mono_droid_load_assembly_aot_None fun_eq_iff
  by simp

lemma initRuntime_aot_None:
  "Java_net_dot_MonoRunner_initRuntime_aot w None d e t s =
   Java_net_dot_MonoRunner_initRuntime w d e t s"
  unfolding Java_net_dot_MonoRunner_initRuntime_aot_def Java_net_dot_MonoRunner_initRuntime_def
    mono_droid_runtime_init_aot_None
  by simp

text \<open>
  With the bundle path set no assertion of \<^verbatim>\<open>load_aot_data\<close> fails, whatever \<^verbatim>\<open>open\<close> and
  \<^verbatim>\<open>mmap\<close> answer; the globals stay, and the \<^verbatim>\<open>open\<close> is in the call log.
\<close>

lemma load_aot_data_returns:
  assumes "g_bundle_path s = Some bundle_path"
  shows "\<exists>r s'. load_aot_data w assembly siz s = Returns r s' \<and>
           g_bundle_path s' = g_bundle_path s \<and> g_domain s' = g_domain s \<and>
           g_assembly s' = g_assembly s \<and>
           Open_rdonly (fst (snprintf 1023 (bundle_path @ ''/'' @ mono_assembly_name w assembly @ ''.aotdata'')))
             \<in> set (calls s')"
  using assms
  by (simp add: load_aot_data_def snprintf_def Let_def split: option.splits)

lemma mono_assembly_open_aot_returns:
  assumes "g_bundle_path s = Some bundle_path"
  shows "\<exists>s'. mono_assembly_open_aot w aot_request path s = Returns (mono_assembly_open_rv w path) s' \<and>
           g_bundle_path s' = g_bundle_path s \<and> g_domain s' = g_domain s \<and>
           g_assembly s' = g_assembly s \<and>
           (\<forall>assembly siz. mono_assembly_open_rv w path = Some assembly \<and> aot_request = Some siz \<longrightarrow>
              Open_rdonly (fst (snprintf 1023 (bundle_path @ ''/'' @ mono_assembly_name w assembly @ ''.aotdata'')))
                \<in> set (calls s'))"
proof (cases "mono_assembly_open_rv w path")
  case None
  then show ?thesis
    by (simp add: mono_assembly_open_aot_def Let_def)
next
  case (Some assembly)
  show ?thesis
  proof (cases aot_request)
    case None
    with Some show ?thesis
      by (simp add: mono_assembly_open_aot_def Let_def)
  next
    case (Some siz)
    from assms have "g_bundle_path (emit (Mono_assembly_open path) s) = Some bundle_path"
      by simp
    from load_aot_data_returns [OF this, of w assembly siz]
    obtain r s' where "load_aot_data w assembly siz (emit (Mono_assembly_open path) s) = Returns r s'"
      "g_bundle_path s' = g_bundle_path s" "g_domain s' = g_domain s" "g_assembly s' = g_assembly s"
      "Open_rdonly (fst (snprintf 1023 (bundle_path @ ''/'' @ mono_assembly_name w assembly @ ''.aotdata'')))
         \<in> set (calls s')"
      by auto
    with Some \<open>mono_assembly_open_rv w path = Some assembly\<close> show ?thesis
      by (simp add: mono_assembly_open_aot_def Let_def)
  qed
qed

lemma mono_droid_load_assembly_aot_cases:
  assumes "g_bundle_path s = Some bundle_path"
  shows "\<exists>s'. mono_droid_load_assembly_aot w aot_request name culture s =
              (if stat_ok w (fst (load_assembly_path bundle_path name culture)) then
                 (case mono_assembly_open_rv w (fst (load_assembly_path bundle_path name culture)) of
                    None \<Rightarrow> Aborts s'
                  | Some assembly \<Rightarrow> Returns (Some assembly) s')
               else Returns None s') \<and>
           g_bundle_path s' = g_bundle_path s \<and> g_domain s' = g_domain s \<and>
           g_assembly s' = g_assembly s \<and>
           (\<forall>assembly siz. stat_ok w (fst (load_assembly_path bundle_path name culture)) \<and>
              mono_assembly_open_rv w (fst (load_assembly_path bundle_path name culture)) = Some assembly \<and>
              aot_request = Some siz \<longrightarrow>
              Open_rdonly (fst (snprintf 1023 (bundle_path @ ''/'' @ mono_assembly_name w assembly @ ''.aotdata'')))
                \<in> set (calls s'))"
proof (cases "load_assembly_path bundle_path name culture")
  case (Pair path res)
  with load_assembly_res_pos [of bundle_path name culture] have res: "0 < res"
    by simp
  let ?s2 = "emit (Stat path) (LOG_INFO ''assembly_preload_hook: %s %s %s\<newline>'' s)"
  show ?thesis
  proof (cases "stat_ok w path")
    case False
    with Pair res assms show ?thesis
      by (simp add: mono_droid_load_assembly_aot_def Let_def)
  next
    case True
    from assms have "g_bundle_path ?s2 = Some bundle_path"
      by simp
    from mono_assembly_open_aot_returns [OF this, of w aot_request path]
    obtain s' where s': "mono_assembly_open_aot w aot_request path ?s2 = Returns (mono_assembly_open_rv w path) s'"
      "g_bundle_path s' = g_bundle_path s" "g_domain s' = g_domain s" "g_assembly s' = g_assembly s"
      "\<forall>assembly siz. mono_assembly_open_rv w path = Some assembly \<and> aot_request = Some siz \<longrightarrow>
         Open_rdonly (fst (snprintf 1023 (bundle_path @ ''/'' @ mono_assembly_name w assembly @ ''.aotdata'')))
           \<in> set (calls s')"
      by auto
    with Pair res assms True show ?thesis
      by (intro exI [of _ s'])
         (simp add: mono_droid_load_assembly_aot_def Let_def split: option.splits)
  qed
qed

text \<open>
  The initialisation in which the engine asks for AOT data returns what the plain one
  returns and leaves the same globals; when it opens the entry assembly, the loader's
  \<^verbatim>\<open>open\<close> is in its call log.
\<close>

lemma runtime_init_aot_result:
  assumes "g_bundle_path s = Some bundle_path" and "length bundle_path \<le> 2047"
  shows "returned (mono_droid_runtime_init_aot w aot_request executable t s) =
           returned (mono_droid_runtime_init w executable t s) \<and>
         globals (final (mono_droid_runtime_init_aot w aot_request executable t s)) =
           globals (final (mono_droid_runtime_init w executable t s)) \<and>
         (\<forall>assembly siz. mono_jit_init_version_rv w \<noteq> None \<and>
            stat_ok w (fst (load_assembly_path bundle_path executable None)) \<and>
            mono_assembly_open_rv w (fst (load_assembly_path bundle_path executable None)) = Some assembly \<and>
            aot_request = Some siz \<longrightarrow>
            Open_rdonly (fst (snprintf 1023 (bundle_path @ ''/'' @ mono_assembly_name w assembly @ ''.aotdata'')))
              \<in> set (calls (final (mono_droid_runtime_init_aot w aot_request executable t s))))"
proof -
  let ?s2 = "case DIAGNOSTIC_PORTS w of
               None \<Rightarrow> LOG_INFO ''mono_droid_runtime_init (Mono) called with executable: %s'' s
             | Some ports \<Rightarrow> emit (Setenv ''DOTNET_DiagnosticPorts'' ports True)
                 (LOG_INFO ''mono_droid_runtime_init (Mono) called with executable: %s'' s)"
  have f2: "g_bundle_path ?s2 = Some bundle_path" "g_domain ?s2 = g_domain s"
    "g_assembly ?s2 = g_assembly s"
    using assms(1) by (simp_all split: option.splits)
  obtain s4 where s4: "load_runtimeconfig w bundle_path (emit (Chdir bundle_path) ?s2) = Returns () s4"
    and f4: "g_bundle_path s4 = Some bundle_path" "g_domain s4 = g_domain s"
      "g_assembly s4 = g_assembly s"
    using load_runtimeconfig_returns [OF assms(2), of w "emit (Chdir bundle_path) ?s2"] f2
    by auto
  let ?appctx = "[(''RUNTIME_IDENTIFIER'', Str (ANDROID_RUNTIME_IDENTIFIER w)),
                  (''APP_CONTEXT_BASE_DIRECTORY'', Str bundle_path),
                  (''System.TimeZoneInfo.LocalDateTimeOffset'', Dec t)]"
  let ?s9 = "(emit (Mono_jit_init_version ''dotnet.android'' ''mobile'')
               (select_aot_mode w (install_hooks (LOG_INFO ''monovm_initialize returned %d''
                 (emit (Monovm_initialize ?appctx) (LOG_INFO ''Calling monovm_initialize'' s4))))))
             \<lparr>g_domain := mono_jit_init_version_rv w\<rparr>"
  have b9: "g_bundle_path ?s9 = Some bundle_path"
    using f4 by simp
  from mono_droid_load_assembly_aot_cases [OF b9, of w aot_request executable None]
  obtain s10 where s10:
    "mono_droid_load_assembly_aot w aot_request executable None ?s9 =
       (if stat_ok w (fst (load_assembly_path bundle_path executable None)) then
          (case mono_assembly_open_rv w (fst (load_assembly_path bundle_path executable None)) of
             None \<Rightarrow> Aborts s10
           | Some assembly \<Rightarrow> Returns (Some assembly) s10)
        else Returns None s10)"
    and f10: "g_bundle_path s10 = g_bundle_path ?s9" "g_domain s10 = g_domain ?s9"
      "g_assembly s10 = g_assembly ?s9"
    and c10: "\<forall>assembly siz. stat_ok w (fst (load_assembly_path bundle_path executable None)) \<and>
        mono_assembly_open_rv w (fst (load_assembly_path bundle_path executable None)) = Some assembly \<and>
        aot_request = Some siz \<longrightarrow>
        Open_rdonly (fst (snprintf 1023 (bundle_path @ ''/'' @ mono_assembly_name w assembly @ ''.aotdata'')))
          \<in> set (calls s10)"
    by blast
  have unfold: "mono_droid_runtime_init_aot w aot_request executable t s =
      (if mono_jit_init_version_rv w = None
       then Returns (- 1) (LOG_ERROR ''mono_jit_init_version failed'' ?s9)
       else if stat_ok w (fst (load_assembly_path bundle_path executable None)) then
          (case mono_assembly_open_rv w (fst (load_assembly_path bundle_path executable None)) of
             None \<Rightarrow> Aborts s10
           | Some assembly \<Rightarrow> Returns (monovm_initialize_rv w) (s10\<lparr>g_assembly := Some assembly\<rparr>))
        else Returns (- 1) (LOG_ERROR ''mono_droid_load_assembly failed'' (s10\<lparr>g_assembly := None\<rparr>)))"
    using f2 s4 s10
    by (simp add: mono_droid_runtime_init_aot_def Let_def split: option.splits)
  note plain = runtime_init_result [OF assms, of w executable t]
  have "returned (mono_droid_runtime_init_aot w aot_request executable t s) =
           returned (mono_droid_runtime_init w executable t s)"
    unfolding plain(1) unfold by (simp add: returned_def split: option.splits)
  moreover have "globals (final (mono_droid_runtime_init_aot w aot_request executable t s)) =
           globals (final (mono_droid_runtime_init w executable t s))"
    unfolding plain(2) unfold using f10 f4
    by (simp add: final_def globals_def split: option.splits)
  moreover have "\<forall>assembly siz. mono_jit_init_version_rv w \<noteq> None \<and>
            stat_ok w (fst (load_assembly_path bundle_path executable None)) \<and>
            mono_assembly_open_rv w (fst (load_assembly_path bundle_path executable None)) = Some assembly \<and>
            aot_request = Some siz \<longrightarrow>
            Open_rdonly (fst (snprintf 1023 (bundle_path @ ''/'' @ mono_assembly_name w assembly @ ''.aotdata'')))
              \<in> set (calls (final (mono_droid_runtime_init_aot w aot_request executable t s)))"
    unfolding unfold using c10 by (auto simp: final_def)
  ultimately show ?thesis
    by blast
qed

lemma initRuntime_aot_result:
  "returned (Java_net_dot_MonoRunner_initRuntime_aot w aot_request d e t s) =
     returned (Java_net_dot_MonoRunner_initRuntime w d e t s) \<and>
   globals (final (Java_net_dot_MonoRunner_initRuntime_aot w aot_request d e t s)) =
     globals (final (Java_net_dot_MonoRunner_initRuntime w d e t s)) \<and>
   (\<forall>assembly siz. malloc_ok w \<and> mono_jit_init_version_rv w \<noteq> None \<and>
      stat_ok w (entry_path d e) \<and> mono_assembly_open_rv w (entry_path d e) = Some assembly \<and>
      aot_request = Some siz \<longrightarrow>
      Open_rdonly (fst (snprintf 1023 (strncpy_str d 2048 @ ''/'' @ mono_assembly_name w assembly @ ''.aotdata'')))
        \<in> set (calls (final (Java_net_dot_MonoRunner_initRuntime_aot w aot_request d e t s))))"
proof -
  let ?s2 = "(LOG_INFO ''Java_net_dot_MonoRunner_initRuntime (Mono):'' s)
               \<lparr>g_bundle_path := Some (strncpy_str d 2048)\<rparr>"
  have b: "g_bundle_path ?s2 = Some (strncpy_str d 2048)" and l: "length (strncpy_str d 2048) \<le> 2047"
    by (simp_all add: strncpy_str_def)
  from runtime_init_aot_result [OF b l, of w aot_request "strncpy_str e 2048" "int32 t"]
  show ?thesis
    by (simp add: Java_net_dot_MonoRunner_initRuntime_aot_def
                  Java_net_dot_MonoRunner_initRuntime_def Let_def entry_path_def)
qed

text \<open>
  Claim C5. With the bundle path set, when the \<^verbatim>\<open>open\<close> of \<^verbatim>\<open><bundle path>/<name>.aotdata\<close>
  fails, \<^verbatim>\<open>load_aot_data\<close> returns null with \<^verbatim>\<open>*out_handle\<close> null: it returns (no assertion
  fails, the process goes on), it leaves the three globals as they were, and apart from log
  lines its only call is that \<^verbatim>\<open>open\<close>. And when the engine, while it opens the entry
  assembly during initialisation, asks the hook for the AOT data of that assembly and the
  \<^verbatim>\<open>open\<close> of its \<^verbatim>\<open>.aotdata\<close> file fails, then the loader has run inside the initialisation
  (its \<^verbatim>\<open>open\<close> is in the call log), the initialisation does not abort and returns the code
  of \<^verbatim>\<open>monovm_initialize\<close>, and both its result and the globals it leaves are those of the
  initialisation in which the engine asks for no AOT data.
\<close>

theorem load_aot_data_missing_file:
  "(g_bundle_path s = Some bundle_path \<and>
    \<not> open_ok w (fst (snprintf 1023 (bundle_path @ ''/'' @ mono_assembly_name w assembly @ ''.aotdata'')))
    \<longrightarrow>
      (\<exists>s'. load_aot_data w assembly siz s = Returns (None, None) s' \<and>
            globals s' = globals s \<and>
            filter (\<lambda>c. \<not> is_log c) (drop (length (calls s)) (calls s')) =
              [Open_rdonly (fst (snprintf 1023 (bundle_path @ ''/'' @ mono_assembly_name w assembly @ ''.aotdata'')))])) \<and>
   (malloc_ok w \<and> mono_jit_init_version_rv w \<noteq> None \<and> stat_ok w (entry_path d e) \<and>
    mono_assembly_open_rv w (entry_path d e) = Some entry \<and>
    \<not> open_ok w (fst (snprintf 1023 (strncpy_str d 2048 @ ''/'' @ mono_assembly_name w entry @ ''.aotdata'')))
    \<longrightarrow>
      Open_rdonly (fst (snprintf 1023 (strncpy_str d 2048 @ ''/'' @ mono_assembly_name w entry @ ''.aotdata'')))
        \<in> set (calls (final (Java_net_dot_MonoRunner_initRuntime_aot w (Some request) d e t s0))) \<and>
      returned (Java_net_dot_MonoRunner_initRuntime_aot w (Some request) d e t s0) =
        Some (monovm_initialize_rv w) \<and>
      returned (Java_net_dot_MonoRunner_initRuntime_aot w (Some request) d e t s0) =
        returned (Java_net_dot_MonoRunner_initRuntime w d e t s0) \<and>
      globals (final (Java_net_dot_MonoRunner_initRuntime_aot w (Some request) d e t s0)) =
        globals (final (Java_net_dot_MonoRunner_initRuntime w d e t s0)))"
proof -
  have "\<exists>s'. load_aot_data w assembly siz s = Returns (None, None) s' \<and>
            globals s' = globals s \<and>
            filter (\<lambda>c. \<not> is_log c) (drop (length (calls s)) (calls s')) =
              [Open_rdonly (fst (snprintf 1023 (bundle_path @ ''/'' @ mono_assembly_name w assembly @ ''.aotdata'')))]"
    if "g_bundle_path s = Some bundle_path"
      and "\<not> open_ok w (fst (snprintf 1023 (bundle_path @ ''/'' @ mono_assembly_name w assembly @ ''.aotdata'')))"
    using that by (simp add: load_aot_data_def snprintf_def Let_def globals_def)
  moreover have "returned (Java_net_dot_MonoRunner_initRuntime w d e t s0) = Some (monovm_initialize_rv w)"
    if "malloc_ok w" "mono_jit_init_version_rv w \<noteq> None" "stat_ok w (entry_path d e)"
      "mono_assembly_open_rv w (entry_path d e) = Some entry"
    using that by (auto simp: initRuntime_result)
  ultimately show ?thesis
    using initRuntime_aot_result [of w "Some request" d e t s0]
    by auto
qed

text \<open>
  The assembly \<^verbatim>\<open>App\<close> in a bundle directory without \<^verbatim>\<open>App.aotdata\<close>: the loader alone, and
  the initialisation in which the engine asks for 4096 bytes of AOT data for the entry
  assembly.
\<close>

theorem load_aot_data_missing_file_witness:
  "g_bundle_path shim_ready = Some ''/data/app'' \<and>
   \<not> open_ok world_ok ''/data/app/App.aotdata'' \<and>
   (\<exists>s'. load_aot_data world_ok 2 4096 shim_ready = Returns (None, None) s' \<and>
         globals s' = globals shim_ready \<and>
         filter (\<lambda>c. \<not> is_log c) (drop (length (calls shim_ready)) (calls s')) =
           [Open_rdonly ''/data/app/App.aotdata'']) \<and>
   mono_assembly_open_rv world_ok (entry_path ''/data/app'' ''App'') = Some 2 \<and>
   Open_rdonly ''/data/app/App.aotdata''
     \<in> set (calls (final (Java_net_dot_MonoRunner_initRuntime_aot world_ok (Some 4096)
                            ''/data/app'' ''App'' 0 shim_init))) \<and>
   returned (Java_net_dot_MonoRunner_initRuntime_aot world_ok (Some 4096) ''/data/app'' ''App'' 0 shim_init)
     = Some 0 \<and>
   globals (final (Java_net_dot_MonoRunner_initRuntime_aot world_ok (Some 4096)
                     ''/data/app'' ''App'' 0 shim_init)) =
     (Some ''/data/app'', Some 1, Some 2)"
proof -
  have g: "globals (final (Java_net_dot_MonoRunner_initRuntime world_ok ''/data/app'' ''App'' 0 shim_init)) =
     (Some ''/data/app'', Some 1, Some 2)"
    by (simp add: initRuntime_result entry_path_App world_ok_def strncpy_str_def)
  from load_aot_data_missing_file [of shim_ready "''/data/app''" world_ok 2 4096
      "''/data/app''" "''App''" 2 4096 0 shim_init] g
  show ?thesis
    by (simp add: shim_ready_def world_ok_def snprintf_def entry_path_App strncpy_str_def)
qed

subsection \<open>The candidate path of assembly resolution\<close>

lemma suffix_last_four:
  assumes "length sfx = 4"
  shows "suffix sfx name \<longleftrightarrow> 4 \<le> length name \<and> drop (length name - 4) name = sfx"
proof
  assume "suffix sfx name"
  then obtain zs where "name = zs @ sfx"
    by (auto simp: suffix_def)
  with assms show "4 \<le> length name \<and> drop (length name - 4) name = sfx"
    by simp
next
  assume "4 \<le> length name \<and> drop (length name - 4) name = sfx"
  then have "name = take (length name - 4) name @ sfx"
    by (metis append_take_drop_id)
  then show "suffix sfx name"
    by (metis suffixI)
qed

text \<open>The check of line 83 for a name whose length fits a C \<^verbatim>\<open>int\<close>.\<close>

lemma has_extension_plain:
  assumes "length name < 2147483648"
  shows "has_extension name \<longleftrightarrow>
           3 < length name \<and> name ! (length name - 4) = CHR ''.'' \<and>
           (drop (length name - 3) name = ''exe'' \<or> drop (length name - 3) name = ''dll'')"
proof -
  have "int32 (int (length name)) = int (length name)"
    using assms by (intro int32_id) simp_all
  moreover have "nat (int (length name) - 4) = length name - 4"
    "nat (int (length name) - 3) = length name - 3"
    by simp_all
  ultimately show ?thesis
    by (auto simp: has_extension_def Let_def)
qed

lemma drop_last_four:
  assumes "3 < length name"
  shows "drop (length name - 4) name = name ! (length name - 4) # drop (length name - 3) name"
proof -
  have "length name - 4 < length name" and "Suc (length name - 4) = length name - 3"
    using assms by simp_all
  then show ?thesis
    by (metis Cons_nth_drop_Suc)
qed

lemma has_extension_suffix:
  assumes "length name < 2147483648"
  shows "has_extension name \<longleftrightarrow> suffix ''.dll'' name \<or> suffix ''.exe'' name"
proof (cases "3 < length name")
  case True
  then have "4 \<le> length name" by simp
  with drop_last_four [OF True] show ?thesis
    by (auto simp: has_extension_plain [OF assms] suffix_last_four)
next
  case False
  then show ?thesis
    by (simp add: has_extension_plain [OF assms] suffix_last_four)
qed

lemma load_assembly_filename_fits:
  assumes "length (spec_filename name) \<le> 1023"
  shows "load_assembly_filename name = spec_filename name"
proof -
  have "length name \<le> 1023"
    using assms by (simp add: spec_filename_def split: if_splits)
  then have "has_extension name \<longleftrightarrow> suffix ''.dll'' name \<or> suffix ''.exe'' name"
    by (intro has_extension_suffix) simp
  then show ?thesis
    using assms
    by (auto simp: load_assembly_filename_def spec_filename_def strlcpy_def strlcat_def Let_def)
qed

lemma replicate_four: "replicate 4 x = [x, x, x, x]"
  by (simp add: numeral_eq_Suc)

lemma has_extension_replicate:
  "4 \<le> n \<Longrightarrow> n < 2147483648 \<Longrightarrow> \<not> has_extension (replicate n (CHR ''a''))"
  by (simp add: has_extension_plain)

text \<open>
  Claim C2, as amended. For every name and culture whose candidate path, as the
  specification words it, has at most 1022 characters (what the buffer \<^verbatim>\<open>path [1024]\<close>
  receives from \<^verbatim>\<open>snprintf (path, sizeof (path) - 1, ...)\<close>), the path that
  \<^verbatim>\<open>mono_droid_load_assembly\<close> hands to \<^verbatim>\<open>stat\<close> is that candidate: \<^verbatim>\<open>.dll\<close> is appended only
  when the name ends in neither \<^verbatim>\<open>.dll\<close> nor \<^verbatim>\<open>.exe\<close>, and the culture directory is
  inserted only for a non-null, non-empty culture.
\<close>

theorem load_assembly_path_candidate:
  assumes "length (spec_candidate_path bundle_path name culture) \<le> 1022"
  shows "fst (load_assembly_path bundle_path name culture) = spec_candidate_path bundle_path name culture"
proof -
  have "length (spec_filename name) \<le> 1023"
    using assms by (simp add: spec_candidate_path_def split: option.splits if_splits)
  then have "load_assembly_filename name = spec_filename name"
    by (rule load_assembly_filename_fits)
  then show ?thesis
    using assms
    by (auto simp: load_assembly_path_def spec_candidate_path_def snprintf_def Let_def
             split: option.splits)
qed

text \<open>The examples of the specification, and an empty culture.\<close>

theorem load_assembly_path_candidate_witness:
  "fst (load_assembly_path ''/data/app'' ''App'' None) = ''/data/app/App.dll'' \<and>
   fst (load_assembly_path ''/data/app'' ''App.exe'' None) = ''/data/app/App.exe'' \<and>
   fst (load_assembly_path ''/data/app'' ''App.dll'' (Some [])) = ''/data/app/App.dll'' \<and>
   fst (load_assembly_path ''/data/app'' ''App'' (Some ''fr'')) = ''/data/app/fr/App.dll''"
  using load_assembly_path_candidate [of "''/data/app''" "''App''" None]
        load_assembly_path_candidate [of "''/data/app''" "''App.exe''" None]
        load_assembly_path_candidate [of "''/data/app''" "''App.dll''" "Some []"]
        load_assembly_path_candidate [of "''/data/app''" "''App''" "Some ''fr''"]
  by (simp add: spec_candidate_path_def spec_filename_def suffix_to_prefix)

text \<open>
  The claim as stated (for every name) fails for a name of 1020 characters: the candidate
  of the specification has 1034 characters, the path handed to \<^verbatim>\<open>stat\<close> is cut to 1022 and
  carries no \<^verbatim>\<open>.dll\<close>.
\<close>

theorem load_assembly_path_truncates:
  "fst (load_assembly_path ''/data/app'' (replicate 1020 (CHR ''a'')) None) =
     ''/data/app/'' @ replicate 1012 (CHR ''a'') \<and>
   spec_candidate_path ''/data/app'' (replicate 1020 (CHR ''a'')) None =
     ''/data/app/'' @ replicate 1020 (CHR ''a'') @ ''.dll'' \<and>
   fst (load_assembly_path ''/data/app'' (replicate 1020 (CHR ''a'')) None) \<noteq>
     spec_candidate_path ''/data/app'' (replicate 1020 (CHR ''a'')) None"
proof -
  have "\<not> has_extension (replicate 1020 (CHR ''a''))"
    by (rule has_extension_replicate) simp_all
  moreover have "\<not> suffix ''.dll'' (replicate 1020 (CHR ''a''))"
    "\<not> suffix ''.exe'' (replicate 1020 (CHR ''a''))"
    by (simp_all add: suffix_last_four replicate_four)
  ultimately have code: "fst (load_assembly_path ''/data/app'' (replicate 1020 (CHR ''a'')) None) =
      ''/data/app/'' @ replicate 1012 (CHR ''a'')"
    and spec: "spec_candidate_path ''/data/app'' (replicate 1020 (CHR ''a'')) None =
      ''/data/app/'' @ replicate 1020 (CHR ''a'') @ ''.dll''"
    by (simp_all add: load_assembly_path_def load_assembly_filename_def strlcpy_def strlcat_def
                      snprintf_def spec_candidate_path_def spec_filename_def Let_def)
  have "length (''/data/app/'' @ replicate 1012 (CHR ''a'')) \<noteq>
        length (''/data/app/'' @ replicate 1020 (CHR ''a'') @ ''.dll'')"
    by simp
  then have "''/data/app/'' @ replicate 1012 (CHR ''a'') \<noteq>
             ''/data/app/'' @ replicate 1020 (CHR ''a'') @ ''.dll''"
    by metis
  with code spec show ?thesis
    by simp
qed

subsection \<open>The extension check\<close>

text \<open>
  Claim C9, as amended. For a name of at most 1019 characters, the extension check holds
  exactly when the name has more than 3 characters, a \<^verbatim>\<open>.\<close> at position \<open>length - 4\<close> and
  the last three characters \<^verbatim>\<open>exe\<close> or \<^verbatim>\<open>dll\<close>, compared character by character (so case
  matters); and when the name has fewer than 4 characters, or its last four characters are
  neither \<^verbatim>\<open>.dll\<close> nor \<^verbatim>\<open>.exe\<close>, the file name is the name followed by \<^verbatim>\<open>.dll\<close>.
\<close>

theorem has_extension_appends_dll:
  assumes "length name \<le> 1019"
  shows "(has_extension name \<longleftrightarrow>
            3 < length name \<and> name ! (length name - 4) = CHR ''.'' \<and>
            (drop (length name - 3) name = ''exe'' \<or> drop (length name - 3) name = ''dll'')) \<and>
         (length name < 4 \<or>
            (drop (length name - 4) name \<noteq> ''.dll'' \<and> drop (length name - 4) name \<noteq> ''.exe'')
          \<longrightarrow> load_assembly_filename name = name @ ''.dll'')"
proof -
  have small: "length name < 2147483648"
    using assms by simp
  have "load_assembly_filename name = name @ ''.dll''"
    if "length name < 4 \<or>
        (drop (length name - 4) name \<noteq> ''.dll'' \<and> drop (length name - 4) name \<noteq> ''.exe'')"
  proof -
    from that have "\<not> has_extension name"
      by (auto simp: has_extension_suffix [OF small] suffix_last_four)
    with assms show ?thesis
      by (simp add: load_assembly_filename_def strlcpy_def strlcat_def)
  qed
  with has_extension_plain [OF small] show ?thesis
    by blast
qed

text \<open>An upper-case extension, a name of three characters, and a lower-case extension.\<close>

theorem has_extension_appends_dll_witness:
  "\<not> has_extension ''App.DLL'' \<and> load_assembly_filename ''App.DLL'' = ''App.DLL.dll'' \<and>
   \<not> has_extension ''dll'' \<and> load_assembly_filename ''dll'' = ''dll.dll'' \<and>
   has_extension ''App.dll''"
  using has_extension_appends_dll [of "''App.DLL''"] has_extension_appends_dll [of "''dll''"]
        has_extension_appends_dll [of "''App.dll''"]
  by simp

text \<open>
  The claim as stated (for every such name) fails for a name of 1023 characters without an
  extension: the buffer \<^verbatim>\<open>filename [1024]\<close> is full after \<^verbatim>\<open>strlcpy\<close>, and \<^verbatim>\<open>strlcat\<close> appends
  nothing.
\<close>

theorem load_assembly_filename_truncates:
  "\<not> has_extension (replicate 1023 (CHR ''a'')) \<and>
   load_assembly_filename (replicate 1023 (CHR ''a'')) = replicate 1023 (CHR ''a'') \<and>
   load_assembly_filename (replicate 1023 (CHR ''a'')) \<noteq> replicate 1023 (CHR ''a'') @ ''.dll''"
proof -
  have "\<not> has_extension (replicate 1023 (CHR ''a''))"
    by (rule has_extension_replicate) simp_all
  then show ?thesis
    by (simp add: load_assembly_filename_def strlcpy_def strlcat_def)
qed

end
